theory Spec2Isabelle
  imports Complex_Main "HOL-Library.AList"
begin

section \<open>Values\<close>

text \<open>
  A cell of the yield table is a Python float.  Only two things about floats matter to
  \<^verbatim>\<open>treasury_analysis_daily.py\<close>: a cell may be missing (\<^verbatim>\<open>NaN\<close>), and present
  cells are subtracted, compared and averaged.  Present cells are modelled as reals, so
  rounding of the floating-point operations is outside this model; \<^verbatim>\<open>NaN\<close> is kept,
  with Python's rules: arithmetic on \<^verbatim>\<open>NaN\<close> gives \<^verbatim>\<open>NaN\<close> and every comparison
  with \<^verbatim>\<open>NaN\<close> is false.
\<close>

datatype pyfloat = NaN | Fl real

fun fsub :: "pyfloat \<Rightarrow> pyfloat \<Rightarrow> pyfloat" where
  "fsub (Fl a) (Fl b) = Fl (a - b)"
| "fsub _ _ = NaN"

fun flt :: "pyfloat \<Rightarrow> real \<Rightarrow> bool" where
  "flt (Fl a) b = (a < b)"
| "flt NaN b = False"

text \<open>A value stored in the summary dictionary: a string, a float or \<^verbatim>\<open>None\<close>.\<close>

datatype pyvalue = PyNone | Str string | Num pyfloat

section \<open>Dates\<close>

text \<open>
  A calendar date is its proleptic Gregorian ordinal (\<^verbatim>\<open>date.toordinal()\<close>); a
  \<^verbatim>\<open>datetime\<close> adds the time of day in seconds.  \<open>ord2ymd\<close> follows the standard
  library's conversion of an ordinal to year, month and day, which is what
  \<^verbatim>\<open>strftime\<close> prints.
\<close>

record datetime =
  day :: int
  second_of_day :: nat

definition minus_days :: "datetime \<Rightarrow> int \<Rightarrow> datetime" where
  "minus_days dt n = dt\<lparr>day := day dt - n\<rparr>"

definition days_before_month :: "int \<Rightarrow> int" where
  "days_before_month m =
     (if m = 1 then 0 else if m = 2 then 31 else if m = 3 then 59 else if m = 4 then 90
      else if m = 5 then 120 else if m = 6 then 151 else if m = 7 then 181
      else if m = 8 then 212 else if m = 9 then 243 else if m = 10 then 273
      else if m = 11 then 304 else 334)"

definition days_in_month :: "int \<Rightarrow> int" where
  "days_in_month m =
     (if m = 2 then 28 else if m = 4 \<or> m = 6 \<or> m = 9 \<or> m = 11 then 30 else 31)"

definition ord2ymd :: "int \<Rightarrow> int \<times> int \<times> int" where
  "ord2ymd ordinal =
     (let n = ordinal - 1;
          n400 = n div 146097; n = n mod 146097;
          n100 = n div 36524; n = n mod 36524;
          n4 = n div 1461; n = n mod 1461;
          n1 = n div 365; n = n mod 365;
          year = n400 * 400 + 1 + n100 * 100 + n4 * 4 + n1
      in if n1 = 4 \<or> n100 = 4 then (year - 1, 12, 31)
         else
           let leapyear = (n1 = 3 \<and> (n4 \<noteq> 24 \<or> n100 = 3));
               month = (n + 50) div 32;
               preceding = days_before_month month + (if month > 2 \<and> leapyear then 1 else 0)
           in if preceding > n
              then (year, month - 1,
                    n - (preceding - (days_in_month (month - 1)
                                      + (if month - 1 = 2 \<and> leapyear then 1 else 0))) + 1)
              else (year, month, n - preceding + 1))"

definition digit :: "int \<Rightarrow> char" where
  "digit k = ''0123456789'' ! nat (k mod 10)"

definition digits2 :: "int \<Rightarrow> string" where
  "digits2 k = [digit (k div 10), digit k]"

definition digits4 :: "int \<Rightarrow> string" where
  "digits4 k = [digit (k div 1000), digit (k div 100), digit (k div 10), digit k]"

text \<open>\<^verbatim>\<open>strftime('%Y%m%d')\<close> and \<^verbatim>\<open>strftime('%Y-%m-%d')\<close>, for years 1000 to 9999.\<close>

definition strftime_Ymd :: "int \<Rightarrow> string" where
  "strftime_Ymd d = (case ord2ymd d of (y, m, dd) \<Rightarrow> digits4 y @ digits2 m @ digits2 dd)"

definition strftime_Y_m_d :: "int \<Rightarrow> string" where
  "strftime_Y_m_d d =
     (case ord2ymd d of (y, m, dd) \<Rightarrow> digits4 y @ ''-'' @ digits2 m @ ''-'' @ digits2 dd)"

section \<open>Series and frames\<close>

text \<open>
  A pandas Series is an association list from its index to its values, in index order.
  A DataFrame is kept row by row: the column labels, and for each index entry the date
  and one cell per column.
\<close>

type_synonym date_series = "(int \<times> pyfloat) list"
type_synonym label_series = "(string \<times> pyfloat) list"

record frame =
  columns :: "string list"
  rows :: "(int \<times> pyfloat list) list"

definition wf_frame :: "frame \<Rightarrow> bool" where
  "wf_frame df \<longleftrightarrow>
     distinct (columns df) \<and> list_all (\<lambda>r. length (snd r) = length (columns df)) (rows df)"

text \<open>\<^verbatim>\<open>pd.DataFrame()\<close>, \<^verbatim>\<open>df.empty\<close> (some axis has length 0).\<close>

definition empty_frame :: frame where
  "empty_frame = \<lparr>columns = [], rows = []\<rparr>"

definition df_empty :: "frame \<Rightarrow> bool" where
  "df_empty df \<longleftrightarrow> columns df = [] \<or> rows df = []"

text \<open>
  \<^verbatim>\<open>pd.DataFrame(data)\<close> for a dict of date-indexed Series: the columns are the keys
  in insertion order, the index is the sorted union of the Series' indexes, and a cell is
  \<^verbatim>\<open>NaN\<close> where its Series has no entry for the date.  (Each Series' own index is taken
  to hold a date once, as the provider's are.)
\<close>

definition union_index :: "date_series list \<Rightarrow> int list" where
  "union_index ss = sort (remdups (concat (map (map fst) ss)))"

definition series_at :: "date_series \<Rightarrow> int \<Rightarrow> pyfloat" where
  "series_at s d = (case map_of s d of None \<Rightarrow> NaN | Some v \<Rightarrow> v)"

definition DataFrame :: "(string \<times> date_series) list \<Rightarrow> frame" where
  "DataFrame data =
     \<lparr>columns = map fst data,
      rows = map (\<lambda>d. (d, map (\<lambda>ms. series_at (snd ms) d) data)) (union_index (map snd data))\<rparr>"

text \<open>\<^verbatim>\<open>df.dropna(how='all')\<close>: a row goes when every cell of it is \<^verbatim>\<open>NaN\<close>.\<close>

definition all_missing :: "pyfloat list \<Rightarrow> bool" where
  "all_missing cs = list_all (\<lambda>c. c = NaN) cs"

definition dropna_all :: "frame \<Rightarrow> frame" where
  "dropna_all df = df\<lparr>rows := filter (\<lambda>r. \<not> all_missing (snd r)) (rows df)\<rparr>"

text \<open>
  \<^verbatim>\<open>tail(n)\<close>: nothing for \<open>n = 0\<close>, else \<^verbatim>\<open>iloc[-n:]\<close>: the last \<open>n\<close> entries (all of
  them when there are fewer), and for a negative \<open>n\<close> all but the first \<open>-n\<close>.
\<close>

definition tail :: "int \<Rightarrow> 'a list \<Rightarrow> 'a list" where
  "tail n xs =
     (if n = 0 then [] else if 0 < n then drop (length xs - nat n) xs else drop (nat (- n)) xs)"

definition df_tail :: "int \<Rightarrow> frame \<Rightarrow> frame" where
  "df_tail n df = df\<lparr>rows := tail n (rows df)\<rparr>"

text \<open>A row as a Series indexed by the column labels; \<^verbatim>\<open>df[c]\<close> as the list of its cells.\<close>

definition row_series :: "frame \<Rightarrow> int \<times> pyfloat list \<Rightarrow> label_series" where
  "row_series df r = zip (columns df) (snd r)"

definition cell :: "frame \<Rightarrow> int \<times> pyfloat list \<Rightarrow> string \<Rightarrow> pyfloat" where
  "cell df r c = (case map_of (row_series df r) c of None \<Rightarrow> NaN | Some v \<Rightarrow> v)"

definition column :: "frame \<Rightarrow> string \<Rightarrow> pyfloat list" where
  "column df c = map (\<lambda>r. cell df r c) (rows df)"

section \<open>Column statistics\<close>

text \<open>
  \<^verbatim>\<open>max()\<close>, \<^verbatim>\<open>min()\<close>, \<^verbatim>\<open>median()\<close> and \<^verbatim>\<open>mean()\<close> of a column skip \<^verbatim>\<open>NaN\<close> and
  give \<^verbatim>\<open>NaN\<close> when nothing is left.
\<close>

fun present :: "pyfloat list \<Rightarrow> real list" where
  "present [] = []"
| "present (NaN # vs) = present vs"
| "present (Fl x # vs) = x # present vs"

definition nanmax :: "pyfloat list \<Rightarrow> pyfloat" where
  "nanmax vs = (case present vs of [] \<Rightarrow> NaN | x # xs \<Rightarrow> Fl (fold max xs x))"

definition nanmin :: "pyfloat list \<Rightarrow> pyfloat" where
  "nanmin vs = (case present vs of [] \<Rightarrow> NaN | x # xs \<Rightarrow> Fl (fold min xs x))"

definition middle :: "real list \<Rightarrow> real" where
  "middle ys =
     (let n = length ys
      in if odd n then ys ! (n div 2) else (ys ! (n div 2 - 1) + ys ! (n div 2)) / 2)"

definition nanmedian :: "pyfloat list \<Rightarrow> pyfloat" where
  "nanmedian vs = (case present vs of [] \<Rightarrow> NaN | x # xs \<Rightarrow> Fl (middle (sort (x # xs))))"

definition nanmean :: "pyfloat list \<Rightarrow> pyfloat" where
  "nanmean vs =
     (case present vs of [] \<Rightarrow> NaN | x # xs \<Rightarrow> Fl (sum_list (x # xs) / real (length (x # xs))))"

section \<open>Effects\<close>

text \<open>
  What a run does besides returning: the lines it prints, the requests it sends to the
  provider and the files it writes, in order.  A printed line is kept as the print
  statement it comes from with the values it formats (banner glyphs left out).  A file
  is its name and the object serialised into it: \<^verbatim>\<open>to_csv\<close> and \<^verbatim>\<open>write_html\<close> are
  functions of that object, so equal objects give equal bytes.
\<close>

record stat_row =
  Current :: pyfloat
  D_Max :: pyfloat
  D_Min :: pyfloat
  D_Median :: pyfloat
  D_Mean :: pyfloat

type_synonym stats_frame = "(string \<times> stat_row) list"

record figure =
  title :: string
  curve :: "(string \<times> pyfloat) list"
  trends :: "(string \<times> string \<times> (int \<times> pyfloat) list) list"
  spread_area :: "(int \<times> pyfloat) list option"
  window :: int
  range_min :: "(string \<times> pyfloat) list"
  range_current :: "(string \<times> pyfloat) list"
  range_max :: "(string \<times> pyfloat) list"

datatype line =
    Banner
  | Stamp datetime
  | Rule nat
  | Fetching
  | FetchOk string
  | FetchFailed string string
  | NoData
  | Got nat nat
  | DataSaved string
  | SnapshotHeader string
  | YieldLine string pyfloat
  | KeySpreads
  | Spread2Y10Y pyfloat
  | Tag string
  | Spread3M10Y pyfloat
  | Spread5Y30Y pyfloat
  | StatsHeader int
  | StatsTable stats_frame
  | SummarySaved string
  | HtmlSaved
  | PngSaved
  | PngWarning string
  | Complete

datatype content =
    RawCsv frame
  | SummaryCsv "(string \<times> pyvalue) list list"
  | ChartHtml figure
  | ChartPng figure

datatype event =
    Print line
  | Request string datetime datetime
  | Write string content
  | Raise string

section \<open>Data acquisition\<close>

text \<open>
  The provider is a parameter: \<open>fetch code start end\<close> is what
  \<^verbatim>\<open>pdr.get_data_fred(code, start_date, end_date)[code]\<close> evaluates to, \<open>Inr\<close> the
  Series or \<open>Inl\<close> the message of the exception raised.
\<close>

type_synonym provider = "string \<Rightarrow> datetime \<Rightarrow> datetime \<Rightarrow> string + date_series"

definition series :: "(string \<times> string) list" where
  "series =
     [(''1Y'', ''DGS1''),
      (''2Y'', ''DGS2''), (''3Y'', ''DGS3''), (''5Y'', ''DGS5''), (''7Y'', ''DGS7''),
      (''10Y'', ''DGS10''), (''20Y'', ''DGS20''), (''30Y'', ''DGS30'')]"

text \<open>One round of the loop over \<^verbatim>\<open>series.items()\<close>: the \<^verbatim>\<open>try\<close> and its \<^verbatim>\<open>except\<close>.\<close>

definition fetch_one ::
  "provider \<Rightarrow> datetime \<Rightarrow> datetime \<Rightarrow> string \<times> string \<Rightarrow>
   (string \<times> date_series) list \<times> event list \<Rightarrow> (string \<times> date_series) list \<times> event list" where
  "fetch_one fetch start_date end_date mc st =
     (case mc of (maturity, code) \<Rightarrow>
      case st of (data, out) \<Rightarrow>
        (case fetch code start_date end_date of
           Inr rates \<Rightarrow>
             (AList.update maturity rates data,
              out @ [Request code start_date end_date, Print (FetchOk maturity)])
         | Inl e \<Rightarrow>
             (data,
              out @ [Request code start_date end_date, Print (FetchFailed maturity (take 50 e))])))"

definition fetch_all ::
  "provider \<Rightarrow> datetime \<Rightarrow> datetime \<Rightarrow> event list \<Rightarrow>
   (string \<times> date_series) list \<times> event list" where
  "fetch_all fetch start_date end_date out0 =
     fold (fetch_one fetch start_date end_date) series ([], out0)"

definition get_treasury_data :: "provider \<Rightarrow> datetime \<Rightarrow> int \<Rightarrow> frame \<times> event list" where
  "get_treasury_data fetch now years =
     (let end_date = now;
          start_date = minus_days end_date (365 * years);
          out0 = [Print Banner, Print (Stamp end_date), Print (Rule 50), Print Fetching]
      in case fetch_all fetch start_date end_date out0 of (data, out) \<Rightarrow>
           if data = [] then (empty_frame, out @ [Print NoData])
           else
             let df = dropna_all (DataFrame data);
                 today_str = strftime_Ymd (day end_date);
                 file = ''treasury_data_'' @ today_str @ ''.csv''
             in (df,
                 out @ [Print (Got (length (columns df)) (length (rows df))),
                        Write file (RawCsv df),
                        Print (DataSaved file)]))"

section \<open>Statistics and spreads\<close>

definition order :: "string list" where
  "order = [''1Y'', ''2Y'', ''3Y'', ''5Y'', ''7Y'', ''10Y'', ''20Y'', ''30Y'']"

text \<open>\<^verbatim>\<open>current.get(k, default)\<close> on the Series of the last row.\<close>

definition series_get :: "label_series \<Rightarrow> string \<Rightarrow> 'a \<Rightarrow> (pyfloat \<Rightarrow> 'a) \<Rightarrow> 'a" where
  "series_get s k dflt f = (case map_of s k of None \<Rightarrow> dflt | Some v \<Rightarrow> f v)"

definition compute_stats :: "frame \<Rightarrow> int \<Rightarrow> stats_frame" where
  "compute_stats df n_days =
     (let recent = df_tail n_days df;
          current = last (rows df)
      in map (\<lambda>c. (c, \<lparr>Current = cell df current c,
                        D_Max = nanmax (column recent c),
                        D_Min = nanmin (column recent c),
                        D_Median = nanmedian (column recent c),
                        D_Mean = nanmean (column recent c)\<rparr>)) (columns df))"

text \<open>The \<^verbatim>\<open>if\<close>/\<^verbatim>\<open>elif\<close>/\<^verbatim>\<open>else\<close> on the primary spread: the tag printed and the status kept.\<close>

definition classify :: "pyfloat \<Rightarrow> line \<times> string" where
  "classify spread =
     (if flt spread 0 then (Tag ''(INVERTED)'', ''INVERTED'')
      else if flt spread 0.5 then (Tag ''(FLAT)'', ''FLAT'')
      else (Tag ''(NORMAL)'', ''NORMAL''))"

text \<open>
  The three spread blocks.  Each is guarded by the presence of its two columns in the
  last row's Series; the result is the spread when the block runs, with the lines it
  prints.
\<close>

definition primary_spread :: "label_series \<Rightarrow> (pyfloat \<times> string) option \<times> event list" where
  "primary_spread current =
     (case (map_of current ''2Y'', map_of current ''10Y'') of
        (Some y2, Some y10) \<Rightarrow>
          (let spread = fsub y10 y2
           in case classify spread of (tag, inversion_status) \<Rightarrow>
                (Some (spread, inversion_status),
                 [Print KeySpreads, Print (Rule 20), Print (Spread2Y10Y spread), Print tag]))
      | _ \<Rightarrow> (None, []))"

definition spread_3m10y :: "label_series \<Rightarrow> pyfloat option" where
  "spread_3m10y current =
     (case (map_of current ''3M'', map_of current ''10Y'') of
        (Some y3m, Some y10) \<Rightarrow> Some (fsub y10 (series_get current ''3M'' (Fl 0) (\<lambda>v. v)))
      | _ \<Rightarrow> None)"

definition spread_5y30y :: "label_series \<Rightarrow> pyfloat option" where
  "spread_5y30y current =
     (case (map_of current ''5Y'', map_of current ''30Y'') of
        (Some y5, Some y30) \<Rightarrow> Some (fsub y30 y5)
      | _ \<Rightarrow> None)"

definition summary_data :: "frame \<Rightarrow> (string \<times> pyvalue) list" where
  "summary_data df =
     (let current = row_series df (last (rows df));
          primary = fst (primary_spread current)
      in [(''date'', Str (strftime_Y_m_d (fst (last (rows df))))),
          (''inversion_status'',
             (case primary of Some (spread, inversion_status) \<Rightarrow> Str inversion_status
              | None \<Rightarrow> Str ''N/A'')),
          (''2Y_10Y_spread'',
             (case primary of Some (spread, inversion_status) \<Rightarrow> Num spread
              | None \<Rightarrow> PyNone))]
         @ map (\<lambda>maturity. (maturity @ ''_yield'', series_get current maturity PyNone Num)) order)"

definition analyze_rates :: "datetime \<Rightarrow> frame \<Rightarrow> int \<Rightarrow> stats_frame option \<times> event list" where
  "analyze_rates now df n_days =
     (if df_empty df then (None, [])
      else
        let stats = compute_stats df n_days;
            current = row_series df (last (rows df));
            today_str = strftime_Ymd (day now);
            file = ''treasury_summary_'' @ today_str @ ''.csv''
        in (Some stats,
            [Print (SnapshotHeader (strftime_Y_m_d (fst (last (rows df))))), Print (Rule 50)]
            @ concat (map (\<lambda>maturity. series_get current maturity []
                                         (\<lambda>rate. [Print (YieldLine maturity rate)])) order)
            @ snd (primary_spread current)
            @ (case spread_3m10y current of Some s \<Rightarrow> [Print (Spread3M10Y s)] | None \<Rightarrow> [])
            @ (case spread_5y30y current of Some s \<Rightarrow> [Print (Spread5Y30Y s)] | None \<Rightarrow> [])
            @ [Print (StatsHeader n_days), Print (Rule 60), Print (StatsTable stats),
               Write file (SummaryCsv [summary_data df]),
               Print (SummarySaved file)]))"

section \<open>Visualization\<close>

definition maturity_map :: "string list" where
  "maturity_map =
     [''1M'', ''3M'', ''6M'', ''1Y'', ''2Y'', ''3Y'', ''5Y'', ''7Y'', ''10Y'', ''20Y'', ''30Y'']"

definition colors :: "string list" where
  "colors = [''red'', ''green'', ''blue'', ''orange'']"

text \<open>
  The figure holds what the four panels plot.  \<open>png_error\<close> is the exception
  \<^verbatim>\<open>write_image\<close> raises where static rendering is unavailable, \<open>None\<close> where it works.
\<close>

definition build_figure :: "datetime \<Rightarrow> frame \<Rightarrow> stats_frame \<Rightarrow> int \<Rightarrow> figure" where
  "build_figure now df stats n_days =
     (let current = filter (\<lambda>p. snd p \<noteq> NaN) (map (\<lambda>p. (fst p, Current (snd p))) stats);
          maturities = filter (\<lambda>m. m \<in> set maturity_map) (map fst current);
          today_str = strftime_Y_m_d (day now);
          recent_data = df_tail 252 df;
          comparison =
            filter (\<lambda>p. Current (snd p) \<noteq> NaN \<and> D_Min (snd p) \<noteq> NaN \<and> D_Max (snd p) \<noteq> NaN)
              stats
      in \<lparr>title = ''US Treasury Analysis - '' @ today_str,
          curve = map (\<lambda>m. (m, series_get current m NaN (\<lambda>v. v))) maturities,
          trends =
            concat (map (\<lambda>rc. if fst rc \<in> set (columns df)
                               then [(fst rc, snd rc,
                                      zip (map fst (rows recent_data)) (column recent_data (fst rc)))]
                               else [])
                      (zip [''2Y'', ''5Y'', ''10Y'', ''30Y''] colors)),
          spread_area =
            (if ''10Y'' \<in> set (columns df) \<and> ''2Y'' \<in> set (columns df)
             then Some (tail 252 (map (\<lambda>r. (fst r, fsub (cell df r ''10Y'') (cell df r ''2Y'')))
                                    (rows df)))
             else None),
          window = n_days,
          range_min = map (\<lambda>p. (fst p, D_Min (snd p))) comparison,
          range_current = map (\<lambda>p. (fst p, Current (snd p))) comparison,
          range_max = map (\<lambda>p. (fst p, D_Max (snd p))) comparison\<rparr>)"

definition plot_curve ::
  "datetime \<Rightarrow> string option \<Rightarrow> frame \<Rightarrow> stats_frame \<Rightarrow> int \<Rightarrow> event list" where
  "plot_curve now png_error df stats n_days =
     (if df_empty df then []
      else
        let fig = build_figure now df stats n_days
        in [Write ''treasury_analysis_plotly.html'' (ChartHtml fig), Print HtmlSaved]
           @ (case png_error of
                None \<Rightarrow> [Write ''treasury_analysis.png'' (ChartPng fig), Print PngSaved]
              | Some e \<Rightarrow> [Print (PngWarning e)]))"

section \<open>The pipeline\<close>

text \<open>
  What a run reads from outside: the provider, the clock at each of the three calls of
  \<^verbatim>\<open>datetime.now()\<close>, and whether static rendering works.
\<close>

record env =
  fetch :: provider
  now_fetch :: datetime
  now_summary :: datetime
  now_plot :: datetime
  png_error :: "string option"

definition main :: "env \<Rightarrow> event list" where
  "main e =
     (let n_days = 90;
          years = 2
      in case get_treasury_data (fetch e) (now_fetch e) years of (df, out1) \<Rightarrow>
           if df_empty df then out1
           else
             (case analyze_rates (now_summary e) df n_days of
                (Some stats, out2) \<Rightarrow>
                  out1 @ out2 @ plot_curve (now_plot e) (png_error e) df stats n_days
                  @ [Print (Rule 50), Print Complete]
              | (None, out2) \<Rightarrow> out1 @ out2 @ [Raise ''TypeError'']))"

text \<open>
  Readings of a run's effects: the files written and the dated CSV files among them, the
  series codes requested, the classification tags printed, and the values printed on
  the 2Y-10Y and 3M-10Y lines.
\<close>

fun writes :: "event list \<Rightarrow> (string \<times> content) list" where
  "writes [] = []"
| "writes (Write f c # es) = (f, c) # writes es"
| "writes (_ # es) = writes es"

fun requests :: "event list \<Rightarrow> string list" where
  "requests [] = []"
| "requests (Request code s t # es) = code # requests es"
| "requests (_ # es) = requests es"



fun tags :: "event list \<Rightarrow> string list" where
  "tags [] = []"
| "tags (Print (Tag t) # es) = t # tags es"
| "tags (_ # es) = tags es"

fun printed_2y10y :: "event list \<Rightarrow> pyfloat list" where
  "printed_2y10y [] = []"
| "printed_2y10y (Print (Spread2Y10Y s) # es) = s # printed_2y10y es"
| "printed_2y10y (_ # es) = printed_2y10y es"

fun printed_3m10y :: "event list \<Rightarrow> pyfloat list" where
  "printed_3m10y [] = []"
| "printed_3m10y (Print (Spread3M10Y s) # es) = s # printed_3m10y es"
| "printed_3m10y (_ # es) = printed_3m10y es"

section \<open>Example tables\<close>

text \<open>Two observations of the 2-year and 10-year yields, 3 and 4 January 2024.\<close>

definition two_day_frame :: frame where
  "two_day_frame =
     \<lparr>columns = [''2Y'', ''10Y''],
      rows = [(738888, [Fl 4.8, Fl 4.3]), (738889, [Fl 4.0, Fl 4.2])]\<rparr>"

text \<open>
  The same with the last 2-year yield missing; a table with the 10-year yield alone; one
  holding a yield above 100; one with a 3-month column.
\<close>

definition nan_tail_frame :: frame where
  "nan_tail_frame =
     \<lparr>columns = [''2Y'', ''10Y'', ''30Y''],
      rows = [(738888, [Fl 4.8, Fl 4.3, Fl 4.5]), (738889, [NaN, Fl 4.2, Fl 4.4])]\<rparr>"

definition only_10y_frame :: frame where
  "only_10y_frame = \<lparr>columns = [''10Y''], rows = [(738889, [Fl 4.2])]\<rparr>"


definition with_3m_frame :: frame where
  "with_3m_frame = \<lparr>columns = [''3M'', ''10Y''], rows = [(738889, [Fl 5.4, Fl 4.2])]\<rparr>"

text \<open>A clock reading: noon of 5 January 2024.\<close>

definition noon_5_jan :: datetime where
  "noon_5_jan = \<lparr>day = 738890, second_of_day = 43200\<rparr>"

text \<open>The data gathered by the loop, as a function of the provider's answers alone.\<close>

definition keep :: "provider \<Rightarrow> datetime \<Rightarrow> datetime \<Rightarrow> string \<times> string \<Rightarrow> (string \<times> date_series) list \<Rightarrow> (string \<times> date_series) list" where
  "keep f s t mc d = (case f (snd mc) s t of Inr r \<Rightarrow> AList.update (fst mc) r d | Inl e \<Rightarrow> d)"

text \<open>
  The dict \<^verbatim>\<open>data\<close> that \<^verbatim>\<open>get_treasury_data\<close> hands to \<^verbatim>\<open>pd.DataFrame\<close>.
\<close>

definition assembled :: "provider \<Rightarrow> datetime \<Rightarrow> int \<Rightarrow> (string \<times> date_series) list" where
  "assembled provider now years = fst (fetch_all provider (minus_days now (365 * years)) now [])"

text \<open>
  Providers and runs: one that answers for the 2-year and 10-year series only (the
  10-year one with a day, 2 January 2024, on which no yield is given), one that is
  down; a run at noon, a second run the same day at 17:00, and a run against the provider
  that is down.
\<close>

definition flaky_provider :: provider where
  "flaky_provider code start_date end_date =
     (if code = ''DGS2'' then Inr [(738888, Fl 4.8), (738889, Fl 4.0)]
      else if code = ''DGS10'' then Inr [(738887, NaN), (738888, Fl 4.3), (738889, Fl 4.2)]
      else Inl ''HTTP Error 500'')"

definition down_provider :: provider where
  "down_provider code start_date end_date = Inl ''Connection refused''"



definition down_run :: env where
  "down_run =
     \<lparr>fetch = down_provider, now_fetch = noon_5_jan, now_summary = noon_5_jan,
      now_plot = noon_5_jan, png_error = None\<rparr>"

section \<open>Reading effects off a trace\<close>

lemma writes_append: "writes (a @ b) = writes a @ writes b"
  by (induction a rule: writes.induct) simp_all

lemma requests_append: "requests (a @ b) = requests a @ requests b"
  by (induction a rule: requests.induct) simp_all

lemma tags_append: "tags (a @ b) = tags a @ tags b"
  by (induction a rule: tags.induct) simp_all

lemma printed_2y10y_append: "printed_2y10y (a @ b) = printed_2y10y a @ printed_2y10y b"
  by (induction a rule: printed_2y10y.induct) simp_all

lemma printed_3m10y_append: "printed_3m10y (a @ b) = printed_3m10y a @ printed_3m10y b"
  by (induction a rule: printed_3m10y.induct) simp_all

lemma fold_fetch_fst:
  "fst (fold (fetch_one f s t) xs (data, out)) = fold (keep f s t) xs data"
  by (induction xs arbitrary: data out) (auto simp: fetch_one_def keep_def split: sum.splits)

lemma fold_fetch_requests:
  "requests (snd (fold (fetch_one f s t) xs (data, out))) = requests out @ map snd xs"
  by (induction xs arbitrary: data out) (auto simp: fetch_one_def requests_append split: sum.splits)

lemma fold_fetch_writes:
  "writes (snd (fold (fetch_one f s t) xs (data, out))) = writes out"
  by (induction xs arbitrary: data out) (auto simp: fetch_one_def writes_append split: sum.splits)

lemma update_fresh: "k \<notin> fst ` set al \<Longrightarrow> AList.update k v al = al @ [(k, v)]"
  by (induction al) auto

lemma fold_keep_keys:
  "distinct (map fst xs) \<Longrightarrow> fst ` set xs \<inter> fst ` set data = {} \<Longrightarrow>
   map fst (fold (keep f s t) xs data)
   = map fst data @ map fst (filter (\<lambda>mc. \<not> isl (f (snd mc) s t)) xs)"
proof (induction xs arbitrary: data)
  case Nil
  then show ?case by simp
next
  case (Cons x xs)
  show ?case
  proof (cases "f (snd x) s t")
    case (Inl e)
    then have "keep f s t x data = data" by (simp add: keep_def)
    moreover have "fst ` set xs \<inter> fst ` set data = {}" using Cons.prems by auto
    ultimately show ?thesis using Cons Inl by simp
  next
    case (Inr r)
    have fresh: "fst x \<notin> fst ` set data" using Cons.prems by auto
    then have k: "keep f s t x data = data @ [(fst x, r)]"
      using Inr by (simp add: keep_def update_fresh)
    have "fst ` set xs \<inter> fst ` set (data @ [(fst x, r)]) = {}"
      using Cons.prems by force
    then show ?thesis using Cons Inr k by simp
  qed
qed


lemma fold_keep_all_fail:
  "\<forall>mc\<in>set xs. isl (f (snd mc) s t) \<Longrightarrow> fold (keep f s t) xs data = data"
  by (induction xs arbitrary: data) (auto simp: keep_def split: sum.splits)

section \<open>Facts about the column statistics\<close>













lemma tail_subset: "set (tail n xs) \<subseteq> set xs"
  by (auto simp: tail_def dest: in_set_dropD)




section \<open>Facts about the analysis\<close>

lemma yield_lines_silent:
  "writes (concat (map (\<lambda>m. series_get cur m [] (\<lambda>rate. [Print (YieldLine m rate)])) ms)) = []"
  "tags (concat (map (\<lambda>m. series_get cur m [] (\<lambda>rate. [Print (YieldLine m rate)])) ms)) = []"
  "printed_2y10y (concat (map (\<lambda>m. series_get cur m [] (\<lambda>rate. [Print (YieldLine m rate)])) ms)) = []"
  "printed_3m10y (concat (map (\<lambda>m. series_get cur m [] (\<lambda>rate. [Print (YieldLine m rate)])) ms)) = []"
  by (induction ms) (auto simp: series_get_def split: option.splits)

lemma classify_tag: "\<exists>t. fst (classify s) = Tag t"
  by (simp add: classify_def)

lemma primary_spread_silent:
  "writes (snd (primary_spread cur)) = []"
  "printed_3m10y (snd (primary_spread cur)) = []"
  by (auto simp: primary_spread_def classify_def Let_def split: option.splits prod.splits)

lemma analyze_writes:
  "\<not> df_empty df \<Longrightarrow>
   writes (snd (analyze_rates now df n)) =
     [(''treasury_summary_'' @ strftime_Ymd (day now) @ ''.csv'', SummaryCsv [summary_data df])]"
  by (simp add: analyze_rates_def Let_def writes_append yield_lines_silent primary_spread_silent
      split: option.splits)

lemma analyze_tags:
  "\<not> df_empty df \<Longrightarrow>
   tags (snd (analyze_rates now df n)) = tags (snd (primary_spread (row_series df (last (rows df)))))"
  by (simp add: analyze_rates_def Let_def tags_append yield_lines_silent split: option.splits)

lemma analyze_printed_2y10y:
  "\<not> df_empty df \<Longrightarrow>
   printed_2y10y (snd (analyze_rates now df n))
   = printed_2y10y (snd (primary_spread (row_series df (last (rows df)))))"
  by (simp add: analyze_rates_def Let_def printed_2y10y_append yield_lines_silent
      split: option.splits)

lemma analyze_printed_3m10y:
  "\<not> df_empty df \<Longrightarrow>
   printed_3m10y (snd (analyze_rates now df n))
   = (case spread_3m10y (row_series df (last (rows df))) of Some s \<Rightarrow> [s] | None \<Rightarrow> [])"
  by (simp add: analyze_rates_def Let_def printed_3m10y_append yield_lines_silent
      primary_spread_silent split: option.splits)




lemma wf_row_lookup:
  assumes "wf_frame df" and "r \<in> set (rows df)" and "c \<in> set (columns df)"
  shows "map_of (row_series df r) c = Some (cell df r c)"
proof -
  have "length (columns df) = length (snd r)"
    using assms(1,2) by (auto simp: wf_frame_def list_all_iff)
  then obtain v where "map_of (zip (columns df) (snd r)) c = Some v"
    using assms(3) map_of_zip_is_Some by fastforce
  then show ?thesis by (simp add: cell_def row_series_def)
qed

lemma absent_lookup: "c \<notin> set (columns df) \<Longrightarrow> map_of (row_series df r) c = None"
  by (auto simp: row_series_def map_of_eq_None_iff dest: set_zip_leftD)

lemma primary_spread_present:
  assumes "map_of cur ''2Y'' = Some y2" and "map_of cur ''10Y'' = Some y10"
  shows "primary_spread cur =
           (Some (fsub y10 y2, snd (classify (fsub y10 y2))),
            [Print KeySpreads, Print (Rule 20), Print (Spread2Y10Y (fsub y10 y2)),
             Print (fst (classify (fsub y10 y2)))])"
  using assms by (simp add: primary_spread_def Let_def split: prod.splits)

lemma primary_spread_absent:
  "map_of cur ''2Y'' = None \<or> map_of cur ''10Y'' = None \<Longrightarrow> primary_spread cur = (None, [])"
  by (auto simp: primary_spread_def split: option.splits)

lemma summary_head:
  "map_of (summary_data df) ''inversion_status'' =
     Some (case fst (primary_spread (row_series df (last (rows df)))) of
             Some (spread, inversion_status) \<Rightarrow> Str inversion_status | None \<Rightarrow> Str ''N/A'')"
  "map_of (summary_data df) ''2Y_10Y_spread'' =
     Some (case fst (primary_spread (row_series df (last (rows df)))) of
             Some (spread, inversion_status) \<Rightarrow> Num spread | None \<Rightarrow> PyNone)"
  "map_of (summary_data df) ''date'' = Some (Str (strftime_Y_m_d (fst (last (rows df)))))"
  by (simp_all add: summary_data_def Let_def)

lemma series_get_cell:
  assumes "wf_frame df" and "r \<in> set (rows df)"
  shows "series_get (row_series df r) m PyNone Num
         = (if m \<in> set (columns df) then Num (cell df r m) else PyNone)"
  using wf_row_lookup [OF assms, of m] absent_lookup [of m df r]
  by (simp add: series_get_def)

lemma summary_keys:
  "map fst (summary_data df) =
     [''date'', ''inversion_status'', ''2Y_10Y_spread'',
      ''1Y_yield'', ''2Y_yield'', ''3Y_yield'', ''5Y_yield'', ''7Y_yield'',
      ''10Y_yield'', ''20Y_yield'', ''30Y_yield'']"
  by (simp add: summary_data_def Let_def order_def)

lemma summary_yield:
  "m \<in> set order \<Longrightarrow>
   map_of (summary_data df) (m @ ''_yield'')
   = Some (series_get (row_series df (last (rows df))) m PyNone Num)"
  by (auto simp: summary_data_def Let_def order_def)

section \<open>Facts about the acquisition and the pipeline\<close>

lemma series_keys_distinct: "distinct (map fst series)" "distinct (map snd series)"
  by (simp_all add: series_def)

lemma fetch_all_data: "fst (fetch_all f s t out0) = fold (keep f s t) series []"
  by (simp add: fetch_all_def fold_fetch_fst)

lemma fetch_all_requests: "requests (snd (fetch_all f s t out0)) = requests out0 @ map snd series"
  by (simp add: fetch_all_def fold_fetch_requests)

lemma fetch_all_writes: "writes (snd (fetch_all f s t out0)) = writes out0"
  by (simp add: fetch_all_def fold_fetch_writes)

lemma fetched_columns:
  "map fst (fold (keep f s t) series []) = map fst (filter (\<lambda>mc. \<not> isl (f (snd mc) s t)) series)"
  using fold_keep_keys [OF series_keys_distinct(1), of "[]" f s t] by simp

lemma assembled_keep: "assembled f now years = fold (keep f (minus_days now (365 * years)) now) series []"
  by (simp add: assembled_def fetch_all_data)

lemma gtd_unfold:
  "get_treasury_data f now years =
     (if assembled f now years = []
      then (empty_frame,
            snd (fetch_all f (minus_days now (365 * years)) now
                   [Print Banner, Print (Stamp now), Print (Rule 50), Print Fetching])
            @ [Print NoData])
      else (dropna_all (DataFrame (assembled f now years)),
            snd (fetch_all f (minus_days now (365 * years)) now
                   [Print Banner, Print (Stamp now), Print (Rule 50), Print Fetching])
            @ [Print (Got (length (columns (dropna_all (DataFrame (assembled f now years)))))
                          (length (rows (dropna_all (DataFrame (assembled f now years)))))),
               Write (''treasury_data_'' @ strftime_Ymd (day now) @ ''.csv'')
                     (RawCsv (dropna_all (DataFrame (assembled f now years)))),
               Print (DataSaved (''treasury_data_'' @ strftime_Ymd (day now) @ ''.csv''))]))"
proof -
  let ?out0 = "[Print Banner, Print (Stamp now), Print (Rule 50), Print Fetching]"
  let ?fa = "fetch_all f (minus_days now (365 * years)) now ?out0"
  obtain data out where fa: "?fa = (data, out)" by (cases ?fa)
  have "fst ?fa = assembled f now years" by (simp add: assembled_keep fetch_all_data)
  then have d: "data = assembled f now years" using fa by simp
  show ?thesis
    unfolding get_treasury_data_def Let_def fa by (simp add: d)
qed

lemma gtd_frame:
  "fst (get_treasury_data f now years) =
     (if assembled f now years = [] then empty_frame
      else dropna_all (DataFrame (assembled f now years)))"
  by (simp add: gtd_unfold)

lemma gtd_requests: "requests (snd (get_treasury_data f now years)) = map snd series"
  by (simp add: gtd_unfold requests_append fetch_all_requests)

lemma gtd_writes:
  "writes (snd (get_treasury_data f now years)) =
     (if assembled f now years = [] then []
      else [(''treasury_data_'' @ strftime_Ymd (day now) @ ''.csv'',
             RawCsv (dropna_all (DataFrame (assembled f now years))))])"
  by (simp add: gtd_unfold writes_append fetch_all_writes)

lemma gtd_columns:
  "columns (fst (get_treasury_data f now years)) = map fst (assembled f now years)"
  by (simp add: gtd_frame empty_frame_def dropna_all_def DataFrame_def)

lemma dropna_rows:
  "rows (dropna_all df) = filter (\<lambda>r. \<not> all_missing (snd r)) (rows df)"
  by (simp add: dropna_all_def)

lemma main_unfold:
  "main e =
     (if df_empty (fst (get_treasury_data (fetch e) (now_fetch e) 2))
      then snd (get_treasury_data (fetch e) (now_fetch e) 2)
      else snd (get_treasury_data (fetch e) (now_fetch e) 2)
           @ snd (analyze_rates (now_summary e) (fst (get_treasury_data (fetch e) (now_fetch e) 2)) 90)
           @ plot_curve (now_plot e) (png_error e) (fst (get_treasury_data (fetch e) (now_fetch e) 2))
               (compute_stats (fst (get_treasury_data (fetch e) (now_fetch e) 2)) 90) 90
           @ [Print (Rule 50), Print Complete])"
  by (simp add: main_def Let_def analyze_rates_def split: prod.splits)



section \<open>The claims\<close>








text \<open>
  C4, as amended.  The 3M-10Y block is guarded by the presence of both columns, like the
  primary spread: the line is printed exactly when the last row's Series has a 3M and a
  10Y entry, and then shows Current(10Y) minus Current(3M).  With the 3M column absent
  the block is skipped; the default 0 of \<^verbatim>\<open>current.get('3M', 0)\<close> is never used.
\<close>

theorem C4_aux_spread_needs_both_columns:
  assumes "\<not> df_empty df"
  shows "printed_3m10y (snd (analyze_rates now df n_days)) =
           (case (map_of (row_series df (last (rows df))) ''3M'',
                  map_of (row_series df (last (rows df))) ''10Y'') of
              (Some y3m, Some y10) \<Rightarrow> [fsub y10 y3m]
            | _ \<Rightarrow> [])"
  by (simp add: analyze_printed_3m10y [OF assms] spread_3m10y_def series_get_def
      split: option.splits)

theorem C4_aux_spread_needs_both_columns_witness:
  "\<not> df_empty with_3m_frame
   \<and> printed_3m10y (snd (analyze_rates noon_5_jan with_3m_frame 90)) = [Fl (4.2 - 5.4)]"
proof -
  have h: "\<not> df_empty with_3m_frame" by (simp add: with_3m_frame_def df_empty_def)
  show ?thesis
    using C4_aux_spread_needs_both_columns [OF h, of noon_5_jan 90] h
    by (simp add: with_3m_frame_def row_series_def)
qed

theorem C4_counterexample:
  "printed_3m10y (snd (analyze_rates noon_5_jan only_10y_frame 90)) = []
   \<and> \<not> (\<exists>df now n_days.
            \<not> df_empty df \<and> ''3M'' \<notin> set (columns df) \<and> ''10Y'' \<in> set (columns df)
            \<and> printed_3m10y (snd (analyze_rates now df n_days)) \<noteq> [])"
proof -
  have ne: "\<not> df_empty only_10y_frame" by (simp add: only_10y_frame_def df_empty_def)
  have s: "spread_3m10y (row_series only_10y_frame (last (rows only_10y_frame))) = None"
    by (simp add: only_10y_frame_def row_series_def spread_3m10y_def)
  have "printed_3m10y (snd (analyze_rates noon_5_jan only_10y_frame 90)) = []"
    by (simp add: analyze_printed_3m10y [OF ne] s)
  moreover have "printed_3m10y (snd (analyze_rates now df n_days)) = []"
    if "\<not> df_empty df" and "''3M'' \<notin> set (columns df)" for df now n_days
    using that absent_lookup [of "''3M''" df "last (rows df)"]
    by (simp add: analyze_printed_3m10y spread_3m10y_def)
  ultimately show ?thesis by blast
qed

text \<open>
  C5.  When the fetch of every one of the eight series raises, data acquisition returns
  the empty table and the run ends there: its effects are those of the acquisition
  alone, the last of them the line reporting that no data was retrieved, and no file is
  written.
\<close>

theorem C5_no_series_no_files:
  assumes "\<forall>mc\<in>set series. isl (fetch e (snd mc) (minus_days (now_fetch e) (365 * 2)) (now_fetch e))"
  shows "fst (get_treasury_data (fetch e) (now_fetch e) 2) = empty_frame
         \<and> main e = snd (get_treasury_data (fetch e) (now_fetch e) 2)
         \<and> last (main e) = Print NoData
         \<and> writes (main e) = []"
proof -
  have a: "assembled (fetch e) (now_fetch e) 2 = []"
    using assms
      fold_keep_all_fail [of series "fetch e" "minus_days (now_fetch e) (365 * 2)" "now_fetch e" "[]"]
    by (simp add: assembled_keep)
  have f: "fst (get_treasury_data (fetch e) (now_fetch e) 2) = empty_frame"
    by (simp add: gtd_frame a)
  have m: "main e = snd (get_treasury_data (fetch e) (now_fetch e) 2)"
    by (simp add: main_unfold f) (simp add: empty_frame_def df_empty_def)
  have "last (main e) = Print NoData" by (simp add: m gtd_unfold a)
  moreover have "writes (main e) = []" by (simp add: m gtd_writes a)
  ultimately show ?thesis using f m by simp
qed

theorem C5_no_series_no_files_witness:
  "list_all (\<lambda>mc. isl (fetch down_run (snd mc) (minus_days (now_fetch down_run) (365 * 2))
                          (now_fetch down_run))) series
   \<and> fst (get_treasury_data (fetch down_run) (now_fetch down_run) 2) = empty_frame
   \<and> main down_run = snd (get_treasury_data (fetch down_run) (now_fetch down_run) 2)
   \<and> last (main down_run) = Print NoData
   \<and> writes (main down_run) = []"
proof -
  have h: "\<forall>mc\<in>set series. isl (fetch down_run (snd mc) (minus_days (now_fetch down_run) (365 * 2))
                          (now_fetch down_run))"
    by (simp add: down_run_def down_provider_def)
  show ?thesis
    using C5_no_series_no_files [OF h] h unfolding list_all_iff by blast
qed

text \<open>
  C6.  The table returned by data acquisition has no row whose cells are all missing;
  the table written to the dated file is that table; and its rows are exactly the rows
  of the assembled table that have a present cell, in their order.
\<close>

theorem C6_no_all_missing_rows:
  "(\<forall>r\<in>set (rows (fst (get_treasury_data provider now years))). \<not> all_missing (snd r))
   \<and> (\<forall>file table.
         (file, RawCsv table) \<in> set (writes (snd (get_treasury_data provider now years)))
         \<longrightarrow> table = fst (get_treasury_data provider now years))
   \<and> (assembled provider now years \<noteq> [] \<longrightarrow>
         rows (fst (get_treasury_data provider now years))
           = filter (\<lambda>r. \<not> all_missing (snd r)) (rows (DataFrame (assembled provider now years)))
         \<and> writes (snd (get_treasury_data provider now years))
             = [(''treasury_data_'' @ strftime_Ymd (day now) @ ''.csv'',
                 RawCsv (fst (get_treasury_data provider now years)))])"
  by (simp add: gtd_frame gtd_writes dropna_rows empty_frame_def)

theorem C6_no_all_missing_rows_witness:
  "rows (DataFrame (assembled flaky_provider noon_5_jan 2))
     = [(738887, [NaN, NaN]), (738888, [Fl 4.8, Fl 4.3]), (738889, [Fl 4.0, Fl 4.2])]
   \<and> rows (fst (get_treasury_data flaky_provider noon_5_jan 2))
     = [(738888, [Fl 4.8, Fl 4.3]), (738889, [Fl 4.0, Fl 4.2])]
   \<and> map fst (writes (snd (get_treasury_data flaky_provider noon_5_jan 2)))
     = [''treasury_data_20240105.csv'']"
proof -
  let ?g = "get_treasury_data flaky_provider noon_5_jan 2"
  have a: "assembled flaky_provider noon_5_jan 2 =
      [(''2Y'', [(738888, Fl 4.8), (738889, Fl 4.0)]),
       (''10Y'', [(738887, NaN), (738888, Fl 4.3), (738889, Fl 4.2)])]"
    by (simp add: assembled_keep series_def keep_def flaky_provider_def)
  have r: "rows (DataFrame (assembled flaky_provider noon_5_jan 2))
     = [(738887, [NaN, NaN]), (738888, [Fl 4.8, Fl 4.3]), (738889, [Fl 4.0, Fl 4.2])]"
    unfolding a by (simp add: DataFrame_def union_index_def series_at_def)
  have "strftime_Ymd 738890 = ''20240105''" by code_simp
  then have d: "strftime_Ymd (day noon_5_jan) = ''20240105''"
    by (simp add: noon_5_jan_def)
  have ne: "assembled flaky_provider noon_5_jan 2 \<noteq> []" unfolding a by simp
  have kept: "rows (fst ?g)
      = filter (\<lambda>r. \<not> all_missing (snd r)) (rows (DataFrame (assembled flaky_provider noon_5_jan 2)))"
    and saved: "writes (snd ?g)
      = [(''treasury_data_'' @ strftime_Ymd (day noon_5_jan) @ ''.csv'', RawCsv (fst ?g))]"
    using C6_no_all_missing_rows [of flaky_provider noon_5_jan 2] ne by blast+
  have "rows (fst ?g) = [(738888, [Fl 4.8, Fl 4.3]), (738889, [Fl 4.0, Fl 4.2])]"
    unfolding kept r by (simp add: all_missing_def)
  moreover have "map fst (writes (snd ?g)) = [''treasury_data_20240105.csv'']"
    unfolding saved d by simp
  ultimately show ?thesis using r by blast
qed

text \<open>
  C7, as amended.  The summary file of a run holds a single row with the keys date,
  inversion status, primary spread and the yields of the eight maturities in canonical
  order.  The date is that of the table's last row, which need not be the day of the
  run.  With both the 2Y and the 10Y column present the status and the spread are the
  classification and the spread of the last row; with one of them absent they are
  \<^verbatim>\<open>N/A\<close> and \<^verbatim>\<open>None\<close>.  A yield field holds the last row's cell of its column, and
  \<^verbatim>\<open>None\<close> when the column is absent.
\<close>

theorem C7_summary_record:
  assumes wf: "wf_frame df" and ne: "\<not> df_empty df"
  shows "\<exists>summary.
           writes (snd (analyze_rates now df n_days)) =
             [(''treasury_summary_'' @ strftime_Ymd (day now) @ ''.csv'', SummaryCsv [summary])]
           \<and> map fst summary =
               [''date'', ''inversion_status'', ''2Y_10Y_spread'',
                ''1Y_yield'', ''2Y_yield'', ''3Y_yield'', ''5Y_yield'', ''7Y_yield'',
                ''10Y_yield'', ''20Y_yield'', ''30Y_yield'']
           \<and> map_of summary ''date'' = Some (Str (strftime_Y_m_d (fst (last (rows df)))))
           \<and> (''2Y'' \<in> set (columns df) \<and> ''10Y'' \<in> set (columns df) \<longrightarrow>
                map_of summary ''inversion_status'' =
                  Some (Str (snd (classify (fsub (cell df (last (rows df)) ''10Y'')
                                                 (cell df (last (rows df)) ''2Y'')))))
                \<and> map_of summary ''2Y_10Y_spread'' =
                    Some (Num (fsub (cell df (last (rows df)) ''10Y'')
                                    (cell df (last (rows df)) ''2Y''))))
           \<and> (''2Y'' \<notin> set (columns df) \<or> ''10Y'' \<notin> set (columns df) \<longrightarrow>
                map_of summary ''inversion_status'' = Some (Str ''N/A'')
                \<and> map_of summary ''2Y_10Y_spread'' = Some PyNone)
           \<and> (\<forall>m\<in>set order.
                map_of summary (m @ ''_yield'') =
                  Some (if m \<in> set (columns df) then Num (cell df (last (rows df)) m) else PyNone))"
proof -
  let ?l = "last (rows df)"
  let ?cur = "row_series df ?l"
  have l: "?l \<in> set (rows df)" using ne by (simp add: df_empty_def)
  have both: "''2Y'' \<in> set (columns df) \<and> ''10Y'' \<in> set (columns df) \<longrightarrow>
        fst (primary_spread ?cur) =
          Some (fsub (cell df ?l ''10Y'') (cell df ?l ''2Y''),
                snd (classify (fsub (cell df ?l ''10Y'') (cell df ?l ''2Y''))))"
  proof
    assume "''2Y'' \<in> set (columns df) \<and> ''10Y'' \<in> set (columns df)"
    then show "fst (primary_spread ?cur) =
          Some (fsub (cell df ?l ''10Y'') (cell df ?l ''2Y''),
                snd (classify (fsub (cell df ?l ''10Y'') (cell df ?l ''2Y''))))"
      using primary_spread_present [OF wf_row_lookup [OF wf l] wf_row_lookup [OF wf l]]
      by simp
  qed
  have none: "''2Y'' \<notin> set (columns df) \<or> ''10Y'' \<notin> set (columns df) \<longrightarrow>
        fst (primary_spread ?cur) = None"
    using absent_lookup [of "''2Y''" df ?l] absent_lookup [of "''10Y''" df ?l]
      primary_spread_absent [of ?cur] by auto
  have y: "\<forall>m\<in>set order.
        map_of (summary_data df) (m @ ''_yield'') =
          Some (if m \<in> set (columns df) then Num (cell df ?l m) else PyNone)"
    by (simp add: summary_yield series_get_cell [OF wf l])
  show ?thesis
    using analyze_writes [OF ne, of now n_days] summary_keys [of df] both none y
    by (simp add: summary_head)
qed

theorem C7_summary_record_witness:
  "wf_frame two_day_frame \<and> \<not> df_empty two_day_frame
   \<and> (\<exists>summary.
         writes (snd (analyze_rates noon_5_jan two_day_frame 90)) =
           [(''treasury_summary_'' @ strftime_Ymd (day noon_5_jan) @ ''.csv'', SummaryCsv [summary])]
         \<and> map_of summary ''date'' = Some (Str (strftime_Y_m_d 738889))
         \<and> map_of summary ''2Y_10Y_spread'' = Some (Num (Fl (4.2 - 4.0)))
         \<and> map_of summary ''1Y_yield'' = Some PyNone
         \<and> map_of summary ''10Y_yield'' = Some (Num (Fl 4.2)))"
proof -
  have h1: "wf_frame two_day_frame" by (simp add: two_day_frame_def wf_frame_def)
  have h2: "\<not> df_empty two_day_frame" by (simp add: two_day_frame_def df_empty_def)
  have c: "''2Y'' \<in> set (columns two_day_frame)" "''10Y'' \<in> set (columns two_day_frame)"
    "''1Y'' \<notin> set (columns two_day_frame)"
    by (simp_all add: two_day_frame_def)
  have o: "''1Y'' \<in> set order" "''10Y'' \<in> set order" by (simp_all add: order_def)
  have v: "cell two_day_frame (last (rows two_day_frame)) ''10Y'' = Fl 4.2"
    "cell two_day_frame (last (rows two_day_frame)) ''2Y'' = Fl 4.0"
    "fst (last (rows two_day_frame)) = 738889"
    by (simp_all add: two_day_frame_def cell_def row_series_def)
  from C7_summary_record [OF h1 h2, of noon_5_jan 90]
  obtain summary where r:
    "writes (snd (analyze_rates noon_5_jan two_day_frame 90)) =
           [(''treasury_summary_'' @ strftime_Ymd (day noon_5_jan) @ ''.csv'', SummaryCsv [summary])]"
    "map_of summary ''date'' = Some (Str (strftime_Y_m_d (fst (last (rows two_day_frame)))))"
    "map_of summary ''2Y_10Y_spread'' =
       Some (Num (fsub (cell two_day_frame (last (rows two_day_frame)) ''10Y'')
                       (cell two_day_frame (last (rows two_day_frame)) ''2Y'')))"
    "\<forall>m\<in>set order. map_of summary (m @ ''_yield'') =
       Some (if m \<in> set (columns two_day_frame)
             then Num (cell two_day_frame (last (rows two_day_frame)) m) else PyNone)"
    using c by blast
  have "map_of summary ''1Y_yield'' = Some PyNone" using r(4) o(1) c(3) by force
  moreover have "map_of summary ''10Y_yield'' = Some (Num (Fl 4.2))"
    using r(4) o(2) c(2) v(1) by force
  ultimately show ?thesis using h1 h2 r(1,2,3) v by auto
qed

theorem C7_counterexample:
  "writes (snd (analyze_rates noon_5_jan two_day_frame 90)) =
     [(''treasury_summary_20240105.csv'',
       SummaryCsv [[(''date'', Str ''2024-01-04''), (''inversion_status'', Str ''FLAT''),
                    (''2Y_10Y_spread'', Num (Fl 0.2)),
                    (''1Y_yield'', PyNone), (''2Y_yield'', Num (Fl 4.0)), (''3Y_yield'', PyNone),
                    (''5Y_yield'', PyNone), (''7Y_yield'', PyNone), (''10Y_yield'', Num (Fl 4.2)),
                    (''20Y_yield'', PyNone), (''30Y_yield'', PyNone)]])]
   \<and> strftime_Y_m_d (day noon_5_jan) = ''2024-01-05''
   \<and> ''2024-01-04'' \<noteq> ''2024-01-05''"
proof -
  have ne: "\<not> df_empty two_day_frame" by (simp add: two_day_frame_def df_empty_def)
  have d1: "strftime_Ymd 738890 = ''20240105''" by code_simp
  have d2: "strftime_Y_m_d 738889 = ''2024-01-04''" by code_simp
  have d3: "strftime_Y_m_d 738890 = ''2024-01-05''" by code_simp
  have s: "summary_data two_day_frame =
      [(''date'', Str ''2024-01-04''), (''inversion_status'', Str ''FLAT''),
                    (''2Y_10Y_spread'', Num (Fl 0.2)),
                    (''1Y_yield'', PyNone), (''2Y_yield'', Num (Fl 4.0)), (''3Y_yield'', PyNone),
                    (''5Y_yield'', PyNone), (''7Y_yield'', PyNone), (''10Y_yield'', Num (Fl 4.2)),
                    (''20Y_yield'', PyNone), (''30Y_yield'', PyNone)]"
    by (simp add: summary_data_def Let_def two_day_frame_def row_series_def primary_spread_def
        classify_def order_def series_get_def d2)
  show ?thesis
    by (simp add: analyze_writes [OF ne] s) (simp add: noon_5_jan_def d1 d3)
qed

text \<open>
  C8.  With the 2Y and 10Y columns present and the last row's cell of either missing,
  the spread block still runs: the spread is \<^verbatim>\<open>NaN\<close>, both comparisons are false,
  the tag printed and the status written are NORMAL, and the summary's spread field holds
  \<^verbatim>\<open>NaN\<close>.
\<close>

theorem C8_missing_current_counts_as_normal:
  assumes wf: "wf_frame df"
    and rows: "rows df \<noteq> []"
    and c2: "''2Y'' \<in> set (columns df)"
    and c10: "''10Y'' \<in> set (columns df)"
    and missing: "cell df (last (rows df)) ''2Y'' = NaN \<or> cell df (last (rows df)) ''10Y'' = NaN"
  shows "\<exists>file summary.
           printed_2y10y (snd (analyze_rates now df n_days)) = [NaN]
           \<and> tags (snd (analyze_rates now df n_days)) = [''(NORMAL)'']
           \<and> writes (snd (analyze_rates now df n_days)) = [(file, SummaryCsv [summary])]
           \<and> map_of summary ''inversion_status'' = Some (Str ''NORMAL'')
           \<and> map_of summary ''2Y_10Y_spread'' = Some (Num NaN)"
proof -
  let ?cur = "row_series df (last (rows df))"
  let ?y2 = "cell df (last (rows df)) ''2Y''" and ?y10 = "cell df (last (rows df)) ''10Y''"
  have ne: "\<not> df_empty df" using rows c2 by (auto simp: df_empty_def)
  have l: "last (rows df) \<in> set (rows df)" using rows by simp
  have nan: "fsub ?y10 ?y2 = NaN"
    using missing by (cases ?y10; cases ?y2) auto
  have p: "primary_spread ?cur =
             (Some (NaN, ''NORMAL''),
              [Print KeySpreads, Print (Rule 20), Print (Spread2Y10Y NaN), Print (Tag ''(NORMAL)'')])"
    using primary_spread_present [OF wf_row_lookup [OF wf l c2] wf_row_lookup [OF wf l c10]]
    by (simp add: nan classify_def)
  have "printed_2y10y (snd (analyze_rates now df n_days)) = [NaN]"
    by (simp add: analyze_printed_2y10y [OF ne] p)
  moreover have "tags (snd (analyze_rates now df n_days)) = [''(NORMAL)'']"
    by (simp add: analyze_tags [OF ne] p)
  moreover note analyze_writes [OF ne, of now n_days]
  moreover have "map_of (summary_data df) ''inversion_status'' = Some (Str ''NORMAL'')"
    by (simp add: summary_head p)
  moreover have "map_of (summary_data df) ''2Y_10Y_spread'' = Some (Num NaN)"
    by (simp add: summary_head p)
  ultimately show ?thesis by blast
qed

theorem C8_missing_current_counts_as_normal_witness:
  "wf_frame nan_tail_frame \<and> rows nan_tail_frame \<noteq> []
   \<and> ''2Y'' \<in> set (columns nan_tail_frame) \<and> ''10Y'' \<in> set (columns nan_tail_frame)
   \<and> cell nan_tail_frame (last (rows nan_tail_frame)) ''2Y'' = NaN
   \<and> (\<exists>file summary.
         printed_2y10y (snd (analyze_rates noon_5_jan nan_tail_frame 90)) = [NaN]
         \<and> tags (snd (analyze_rates noon_5_jan nan_tail_frame 90)) = [''(NORMAL)'']
         \<and> writes (snd (analyze_rates noon_5_jan nan_tail_frame 90)) = [(file, SummaryCsv [summary])]
         \<and> map_of summary ''inversion_status'' = Some (Str ''NORMAL'')
         \<and> map_of summary ''2Y_10Y_spread'' = Some (Num NaN))"
proof -
  have h1: "wf_frame nan_tail_frame" by (simp add: nan_tail_frame_def wf_frame_def)
  have h2: "rows nan_tail_frame \<noteq> []" by (simp add: nan_tail_frame_def)
  have h3: "''2Y'' \<in> set (columns nan_tail_frame)" by (simp add: nan_tail_frame_def)
  have h4: "''10Y'' \<in> set (columns nan_tail_frame)" by (simp add: nan_tail_frame_def)
  have h5: "cell nan_tail_frame (last (rows nan_tail_frame)) ''2Y'' = NaN"
    by (simp add: nan_tail_frame_def cell_def row_series_def)
  show ?thesis
    using C8_missing_current_counts_as_normal [OF h1 h2 h3 h4 disjI1 [OF h5], of noon_5_jan 90]
      h1 h2 h3 h4 h5 by blast
qed

text \<open>
  C9.  Whatever the provider answers, the eight series are requested once each, in the
  configured order, and the columns of the resulting table are the maturities whose
  request did not raise, in that order.
\<close>

theorem C9_each_maturity_fetched_once:
  "requests (snd (get_treasury_data provider now years)) = map snd series
   \<and> map snd series
       = [''DGS1'', ''DGS2'', ''DGS3'', ''DGS5'', ''DGS7'', ''DGS10'', ''DGS20'', ''DGS30'']
   \<and> columns (fst (get_treasury_data provider now years))
       = map fst (filter (\<lambda>mc. \<not> isl (provider (snd mc) (minus_days now (365 * years)) now))
                    series)"
proof -
  have "map snd series
       = [''DGS1'', ''DGS2'', ''DGS3'', ''DGS5'', ''DGS7'', ''DGS10'', ''DGS20'', ''DGS30'']"
    by (simp add: series_def)
  then show ?thesis
    by (simp add: gtd_requests gtd_columns assembled_keep fetched_columns)
qed

theorem C9_each_maturity_fetched_once_witness:
  "requests (snd (get_treasury_data flaky_provider noon_5_jan 2))
     = [''DGS1'', ''DGS2'', ''DGS3'', ''DGS5'', ''DGS7'', ''DGS10'', ''DGS20'', ''DGS30'']
   \<and> columns (fst (get_treasury_data flaky_provider noon_5_jan 2)) = [''2Y'', ''10Y'']"
  using C9_each_maturity_fetched_once [of flaky_provider noon_5_jan 2]
  by (simp add: series_def flaky_provider_def)



end
